theory Spec2Isabelle
  imports Complex_Main
begin

section \<open>Python values and exceptions\<close>

text \<open>
  Every \<^verbatim>\<open>raise\<close> of the source, and every exception of a Python builtin that the
  source lets escape, is a value of \<open>error\<close>; a function that can raise returns
  \<open>error + 'a\<close> with \<open>Inl\<close> for the exception.
\<close>

datatype error =
    JSONDecodeError
  | KeyError string
  | TypeError
  | ValueError string
  | AssertionError string
  | AttributeError string
  | Warning string
  | VisaTimeout

text \<open>
  A Python \<^verbatim>\<open>float\<close> is abstracted to the real number it denotes, or one of the
  three special values; rounding to 53 bits is not modelled.
\<close>

datatype pyfloat = Finite real | PosInf | NegInf | NaN

text \<open>
  The objects \<^verbatim>\<open>json.loads\<close> returns. A Python \<^verbatim>\<open>dict\<close> keeps insertion order,
  so it is an association list.
\<close>

datatype json =
    JNull
  | JBool bool
  | JInt int
  | JFloat pyfloat
  | JStr string
  | JArr "json list"
  | JObj "(string \<times> json) list"

text \<open>\<^verbatim>\<open>ser[key]\<close> for a string key: only a dict can be indexed by a string.\<close>

fun getitem :: "json \<Rightarrow> string \<Rightarrow> error + json" where
  "getitem (JObj kvs) k = (case map_of kvs k of None \<Rightarrow> Inl (KeyError k) | Some v \<Rightarrow> Inr v)"
| "getitem _ k = Inl TypeError"

section \<open>Schema upgrade 5 to 6 (\<^verbatim>\<open>upgrade_5_to_6.py\<close>)\<close>

subsection \<open>The storage boundary\<close>

text \<open>
  The runs table: run ids are \<open>1..n_runs\<close>, each run has a description that is a text
  or NULL (\<open>None\<close>).
\<close>

record conn =
  n_runs :: nat
  description :: "nat \<Rightarrow> string option"

text \<open>
  Modelled from the spec: \<^verbatim>\<open>RunRegistry.max_run_id\<close>, the query
  \<^verbatim>\<open>SELECT max(run_id) FROM runs\<close> read through \<^verbatim>\<open>one\<close> and
  \<^verbatim>\<open>atomic_transaction\<close> (qcodes.dataset.sqlite is not under src/): the largest
  run id, NULL when the table has no row.
\<close>

definition select_max_run_id :: "conn \<Rightarrow> nat option" where
  "select_max_run_id c = (if n_runs c = 0 then None else Some (n_runs c))"

text \<open>
  Modelled from the spec: \<^verbatim>\<open>get_run_description\<close> and
  \<^verbatim>\<open>update_run_description\<close> of qcodes.dataset.sqlite.queries (not under src/),
  the spec's \<^verbatim>\<open>get_description(run_id) -> string|None\<close> and
  \<^verbatim>\<open>set_description(run_id, string)\<close>.
\<close>

definition get_run_description :: "conn \<Rightarrow> nat \<Rightarrow> string option" where
  "get_run_description c run_id = description c run_id"

definition update_run_description :: "conn \<Rightarrow> nat \<Rightarrow> string \<Rightarrow> conn" where
  "update_run_description c run_id new_json =
     c\<lparr>description := (description c)(run_id := Some new_json)\<rparr>"

text \<open>
  Modelled from the spec: the scoped transaction \<^verbatim>\<open>atomic\<close> of
  qcodes.dataset.sqlite.connection (not under src/): commit on normal exit, rollback on
  any error. The result is the exception that escapes, if any, and the persisted store.
\<close>

definition atomic :: "('s \<Rightarrow> error + 's) \<Rightarrow> 's \<Rightarrow> error option \<times> 's" where
  "atomic body c = (case body c of Inl e \<Rightarrow> (Some e, c) | Inr c' \<Rightarrow> (None, c'))"

subsection \<open>The upgrade\<close>

text \<open>
  \<^verbatim>\<open>json.loads\<close> and \<^verbatim>\<open>json.dumps\<close> belong to Python's library and
  \<^verbatim>\<open>InterDependencies().serialize()\<close> to a module that is not under src/: they are
  the parameters \<open>loads\<close> (\<open>None\<close> when the text is not JSON), \<open>dumps\<close> and
  \<open>empty_idps_ser\<close>.

  \<open>new_ser\<close> is the document built for one run (lines 36 to 43), \<open>new_json\<close> its text.
\<close>

definition new_ser :: "(string \<Rightarrow> json option) \<Rightarrow> json \<Rightarrow> string option \<Rightarrow> error + json" where
  "new_ser loads empty_idps_ser json_str =
     (case json_str of
        None \<Rightarrow> Inr (JObj [(''version'', JInt 0), (''interdependencies'', empty_idps_ser)])
      | Some s \<Rightarrow>
          (case loads s of
             None \<Rightarrow> Inl JSONDecodeError
           | Some ser \<Rightarrow>
               (case getitem ser ''interdependencies'' of
                  Inl e \<Rightarrow> Inl e
                | Inr idps \<Rightarrow> Inr (JObj [(''version'', JInt 0), (''interdependencies'', idps)]))))"

definition new_json ::
  "(string \<Rightarrow> json option) \<Rightarrow> (json \<Rightarrow> string) \<Rightarrow> json \<Rightarrow> string option \<Rightarrow> error + string" where
  "new_json loads dumps empty_idps_ser json_str =
     (case new_ser loads empty_idps_ser json_str of Inl e \<Rightarrow> Inl e | Inr d \<Rightarrow> Inr (dumps d))"

text \<open>The loop of lines 34 to 44 over the run ids, stopping at the first exception.\<close>

fun upgrade_runs ::
  "(string \<Rightarrow> json option) \<Rightarrow> (json \<Rightarrow> string) \<Rightarrow> json \<Rightarrow> nat list \<Rightarrow> conn \<Rightarrow> error + conn" where
  "upgrade_runs loads dumps empty_idps_ser [] c = Inr c"
| "upgrade_runs loads dumps empty_idps_ser (run_id # rest) c =
     (case new_json loads dumps empty_idps_ser (get_run_description c run_id) of
        Inl e \<Rightarrow> Inl e
      | Inr nj \<Rightarrow> upgrade_runs loads dumps empty_idps_ser rest (update_run_description c run_id nj))"

text \<open>\<^verbatim>\<open>no_of_runs = one(...) or 0\<close>: \<^verbatim>\<open>None\<close> and \<^verbatim>\<open>0\<close> are both falsy.\<close>

definition no_of_runs :: "conn \<Rightarrow> nat" where
  "no_of_runs c = (case select_max_run_id c of None \<Rightarrow> 0 | Some n \<Rightarrow> if n = 0 then 0 else n)"

text \<open>\<^verbatim>\<open>range(1, no_of_runs+1)\<close>\<close>

definition run_ids :: "conn \<Rightarrow> nat list" where
  "run_ids c = [1 ..< no_of_runs c + 1]"

definition upgrade_5_to_6 ::
  "(string \<Rightarrow> json option) \<Rightarrow> (json \<Rightarrow> string) \<Rightarrow> json \<Rightarrow> conn \<Rightarrow> error option \<times> conn" where
  "upgrade_5_to_6 loads dumps empty_idps_ser c =
     atomic (upgrade_runs loads dumps empty_idps_ser (run_ids c)) c"

section \<open>Python text helpers\<close>

text \<open>\<^verbatim>\<open>str\<close> of an \<^verbatim>\<open>int\<close>: decimal digits, a minus sign when negative.\<close>

fun str_nat :: "nat \<Rightarrow> string" where
  "str_nat n = (if n < 10 then [''0123456789'' ! n] else str_nat (n div 10) @ [''0123456789'' ! (n mod 10)])"

declare str_nat.simps [simp del]

definition str_int :: "int \<Rightarrow> string" where
  "str_int i = (if i < 0 then CHR ''-'' # str_nat (nat (- i)) else str_nat (nat i))"

fun join :: "string \<Rightarrow> string list \<Rightarrow> string" where
  "join sep [] = []"
| "join sep [x] = x"
| "join sep (x # y # ys) = x @ sep @ join sep (y # ys)"


subsection \<open>A concrete store and JSON codec\<close>

text \<open>
  An instance of the parameters, for evaluating the upgrade on concrete stores:
  \<open>demo_dumps\<close> prints with the separators of \<^verbatim>\<open>json.dumps\<close> (\<^verbatim>\<open>", "\<close> and
  \<^verbatim>\<open>": "\<close>), escaping only quotes and backslashes and printing only integral
  floats as Python does; \<open>demo_loads\<close> is \<^verbatim>\<open>json.loads\<close> restricted to three
  texts and rejects every other text; \<open>demo_empty_idps\<close> is an empty dependency set.
\<close>

definition demo_quote :: "string \<Rightarrow> string" where
  "demo_quote s = CHR 0x22 # concat (map (\<lambda>c. if c = CHR 0x22 \<or> c = CHR 0x5C then [CHR 0x5C, c] else [c]) s) @ [CHR 0x22]"

fun demo_dumps :: "json \<Rightarrow> string" where
  "demo_dumps JNull = ''null''"
| "demo_dumps (JBool b) = (if b then ''true'' else ''false'')"
| "demo_dumps (JInt i) = str_int i"
| "demo_dumps (JFloat x) =
     (case x of Finite r \<Rightarrow> str_int \<lfloor>r\<rfloor> @ ''.0'' | PosInf \<Rightarrow> ''Infinity''
      | NegInf \<Rightarrow> ''-Infinity'' | NaN \<Rightarrow> ''NaN'')"
| "demo_dumps (JStr s) = demo_quote s"
| "demo_dumps (JArr xs) = ''['' @ join '', '' (map demo_dumps xs) @ '']''"
| "demo_dumps (JObj kvs) =
     ''{'' @ join '', '' (map (\<lambda>(k, v). demo_quote k @ '': '' @ demo_dumps v) kvs) @ ''}''"

definition demo_empty_idps :: json where
  "demo_empty_idps = JObj [(''paramspecs'', JArr [])]"

definition demo_loads :: "string \<Rightarrow> json option" where
  "demo_loads = map_of
     [(''{\"interdependencies\": {\"paramspecs\": []}}'',
         JObj [(''interdependencies'', JObj [(''paramspecs'', JArr [])])]),
      (''{\"version\": 0, \"interdependencies\": {\"paramspecs\": []}}'',
         JObj [(''version'', JInt 0), (''interdependencies'', JObj [(''paramspecs'', JArr [])])]),
      (''{\"version\": 3, \"interdependencies\": {\"paramspecs\": []}}'',
         JObj [(''version'', JInt 3), (''interdependencies'', JObj [(''paramspecs'', JArr [])])])]"

definition demo_conn_bad :: conn where
  "demo_conn_bad = \<lparr>n_runs = 3, description = (\<lambda>_. None)
      (1 := Some ''{\"interdependencies\": {\"paramspecs\": []}}'',
       3 := Some ''{\"interdependencies\": '')\<rparr>"

definition demo_conn_ok :: conn where
  "demo_conn_ok = \<lparr>n_runs = 2, description = (\<lambda>_. None)
      (1 := Some ''{\"interdependencies\": {\"paramspecs\": []}}'')\<rparr>"

definition demo_conn_done :: conn where
  "demo_conn_done = \<lparr>n_runs = 2, description = (\<lambda>_. None)
      (1 := Some ''{\"version\": 0, \"interdependencies\": {\"paramspecs\": []}}'',
       2 := Some ''{\"version\": 0, \"interdependencies\": {\"paramspecs\": []}}'')\<rparr>"

definition demo_conn_v3 :: conn where
  "demo_conn_v3 = \<lparr>n_runs = 1, description = (\<lambda>_. None)
      (1 := Some ''{\"version\": 3, \"interdependencies\": {\"paramspecs\": []}}'')\<rparr>"


section \<open>Python builtins on text\<close>

text \<open>
  Strings are lists of 8-bit characters: the builtins are modelled on ASCII text.
  An exception is the left summand; \<open>bind\<close> sequences two steps and stops at the first.
\<close>

definition bind :: "error + 'a \<Rightarrow> ('a \<Rightarrow> error + 'b) \<Rightarrow> error + 'b" where
  "bind x f = (case x of Inl e \<Rightarrow> Inl e | Inr v \<Rightarrow> f v)"


text \<open>The values of the instrument parameters: \<^verbatim>\<open>int\<close>, \<^verbatim>\<open>float\<close> or \<^verbatim>\<open>str\<close>.\<close>

datatype pyval = PInt int | PFloat pyfloat | PStr string

text \<open>
  \<^verbatim>\<open>int(s)\<close> and \<^verbatim>\<open>float(s)\<close> first strip white space (the ASCII characters for which
  \<^verbatim>\<open>str.isspace\<close> holds), then read an optional sign. A run of digits may hold single
  underscores between digits; \<open>digitpart\<close> returns its value and its number of digits.
\<close>

definition is_space :: "char \<Rightarrow> bool" where
  "is_space c = (c \<in> set [CHR 0x20, CHR 0x09, CHR 0x0A, CHR 0x0B, CHR 0x0C, CHR 0x0D,
                            CHR 0x1C, CHR 0x1D, CHR 0x1E, CHR 0x1F])"

definition strip :: "string \<Rightarrow> string" where
  "strip s = rev (dropWhile is_space (rev (dropWhile is_space s)))"

definition is_digit :: "char \<Rightarrow> bool" where
  "is_digit c = (c \<in> set ''0123456789'')"

definition digit_val :: "char \<Rightarrow> nat" where
  "digit_val c = of_char c - 48"

fun digits_acc :: "nat \<Rightarrow> nat \<Rightarrow> string \<Rightarrow> (nat \<times> nat) option" where
  "digits_acc v n [] = Some (v, n)"
| "digits_acc v n (c # cs) =
     (if is_digit c then digits_acc (10 * v + digit_val c) (n + 1) cs
      else if c = CHR ''_'' then
        (case cs of
           [] \<Rightarrow> None
         | d # ds \<Rightarrow> if is_digit d then digits_acc (10 * v + digit_val d) (n + 1) ds else None)
      else None)"

definition digitpart :: "string \<Rightarrow> (nat \<times> nat) option" where
  "digitpart s =
     (case s of [] \<Rightarrow> None | c # cs \<Rightarrow> if is_digit c then digits_acc (digit_val c) 1 cs else None)"

definition py_int :: "string \<Rightarrow> error + int" where
  "py_int s =
     (let t = strip s;
          neg = (case t of [] \<Rightarrow> False | c # cs \<Rightarrow> c = CHR ''-'');
          u = (case t of [] \<Rightarrow> [] | c # cs \<Rightarrow> if c = CHR ''-'' \<or> c = CHR ''+'' then cs else t)
      in case digitpart u of
           None \<Rightarrow> Inl (ValueError ''invalid literal for int() with base 10'')
         | Some (v, n) \<Rightarrow> Inr (if neg then - int v else int v))"

text \<open>
  \<^verbatim>\<open>float(s)\<close> accepts \<^verbatim>\<open>inf\<close>, \<^verbatim>\<open>infinity\<close> and \<^verbatim>\<open>nan\<close> in any letter case, and the
  decimal forms \<^verbatim>\<open>digits[.[digits]][e[sign]digits]\<close> and \<^verbatim>\<open>.digits[e[sign]digits]\<close>.
\<close>

definition to_lower :: "char \<Rightarrow> char" where
  "to_lower c =
     (case map_of (zip ''ABCDEFGHIJKLMNOPQRSTUVWXYZ'' ''abcdefghijklmnopqrstuvwxyz'') c of
        None \<Rightarrow> c | Some l \<Rightarrow> l)"

definition dchar :: "char \<Rightarrow> bool" where
  "dchar c = (is_digit c \<or> c = CHR ''_'')"

definition scale10 :: "real \<Rightarrow> int \<Rightarrow> real" where
  "scale10 x e = (if 0 \<le> e then x * 10 ^ nat e else x / 10 ^ nat (- e))"

definition float_exponent :: "string \<Rightarrow> int option" where
  "float_exponent r =
     (case r of
        [] \<Rightarrow> Some 0
      | e # r' \<Rightarrow>
          if e = CHR ''e'' \<or> e = CHR ''E'' then
            (let neg = (case r' of [] \<Rightarrow> False | c # cs \<Rightarrow> c = CHR ''-'');
                 u = (case r' of [] \<Rightarrow> [] | c # cs \<Rightarrow> if c = CHR ''-'' \<or> c = CHR ''+'' then cs else r')
             in case digitpart u of
                  None \<Rightarrow> None
                | Some (v, n) \<Rightarrow> Some (if neg then - int v else int v))
          else None)"

definition float_number :: "string \<Rightarrow> real option" where
  "float_number t =
     (let ip = takeWhile dchar t;
          r1 = dropWhile dchar t;
          dot = (case r1 of [] \<Rightarrow> False | c # cs \<Rightarrow> c = CHR ''.'');
          fp = (if dot then takeWhile dchar (tl r1) else []);
          r2 = (if dot then dropWhile dchar (tl r1) else r1)
      in if ip = [] \<and> fp = [] then None
         else
           (case (if ip = [] then Some (0, 0) else digitpart ip,
                  if fp = [] then Some (0, 0) else digitpart fp,
                  float_exponent r2) of
              (Some (iv, n), Some (fv, m), Some e) \<Rightarrow>
                 Some (scale10 (real iv + real fv / 10 ^ m) e)
            | _ \<Rightarrow> None))"

definition py_float :: "string \<Rightarrow> error + pyfloat" where
  "py_float s =
     (let t = strip s;
          neg = (case t of [] \<Rightarrow> False | c # cs \<Rightarrow> c = CHR ''-'');
          u = (case t of [] \<Rightarrow> [] | c # cs \<Rightarrow> if c = CHR ''-'' \<or> c = CHR ''+'' then cs else t);
          l = map to_lower u
      in if l = ''inf'' \<or> l = ''infinity'' then Inr (if neg then NegInf else PosInf)
         else if l = ''nan'' then Inr NaN
         else
           (case float_number u of
              None \<Rightarrow> Inl (ValueError ''could not convert string to float'')
            | Some x \<Rightarrow> Inr (Finite (if neg then - x else x))))"

text \<open>
  \<^verbatim>\<open>str(v)\<close>, which is also what an empty format specification prints. The shortest
  round-trip printing of a \<^verbatim>\<open>float\<close> is the parameter \<open>float_repr\<close>.
\<close>

definition py_str :: "(pyfloat \<Rightarrow> string) \<Rightarrow> pyval \<Rightarrow> string" where
  "py_str float_repr v = (case v of PInt i \<Rightarrow> str_int i | PFloat x \<Rightarrow> float_repr x | PStr s \<Rightarrow> s)"

text \<open>
  \<^verbatim>\<open>template.format(**kw)\<close> for templates whose replacement fields are plain names:
  \<^verbatim>\<open>{name}\<close> prints \<^verbatim>\<open>kw[name]\<close>, doubled braces print one brace. Conversions, format
  specifications and attribute or index lookups in a field are not modelled (such a field
  is read as a name).
\<close>

fun py_format :: "(pyval \<Rightarrow> string) \<Rightarrow> (string \<times> pyval) list \<Rightarrow> string \<Rightarrow> error + string"
  and format_field :: "(pyval \<Rightarrow> string) \<Rightarrow> (string \<times> pyval) list \<Rightarrow> string \<Rightarrow> string \<Rightarrow> error + string" where
  "py_format str kw [] = Inr []"
| "py_format str kw (c # cs) =
     (if c = CHR ''{'' then
        (case cs of
           [] \<Rightarrow> Inl (ValueError ''Single { encountered in format string'')
         | d # ds \<Rightarrow>
             if d = CHR ''{'' then map_sum id ((#) CHR ''{'') (py_format str kw ds)
             else format_field str kw [] cs)
      else if c = CHR ''}'' then
        (case cs of
           [] \<Rightarrow> Inl (ValueError ''Single } encountered in format string'')
         | d # ds \<Rightarrow>
             if d = CHR ''}'' then map_sum id ((#) CHR ''}'') (py_format str kw ds)
             else Inl (ValueError ''Single } encountered in format string''))
      else map_sum id ((#) c) (py_format str kw cs))"
| "format_field str kw name [] = Inl (ValueError ''expected } before end of string'')"
| "format_field str kw name (c # cs) =
     (if c = CHR ''}'' then
        (case map_of kw (rev name) of
           None \<Rightarrow> Inl (KeyError (rev name))
         | Some v \<Rightarrow> map_sum id ((@) (str v)) (py_format str kw cs))
      else format_field str kw (c # name) cs)"



section \<open>Regular expressions\<close>

text \<open>
  The fragment of Python's \<^verbatim>\<open>re\<close> that the driver's patterns use, with its backtracking
  order: a matcher tries the alternatives in the order Python does and hands the rest of
  the text to a continuation, so the first success is Python's match.
  \<open>Cls\<close> is a character class (a word character, a digit, any character but a newline, or one of a set), \<open>Rep c lo hi\<close> the
  greedy \<^verbatim>\<open>c{lo,hi}\<close>, \<open>LazyPlus c\<close> the lazy \<^verbatim>\<open>c+?\<close>, \<open>Eos\<close> is \<^verbatim>\<open>$\<close>, \<open>Opt\<close> the
  greedy \<^verbatim>\<open>(...)?\<close>, \<open>Group\<close> a named group. The groups found are an association list,
  the latest first; a group that took no part in the match has no entry (Python's
  \<^verbatim>\<open>None\<close>).
\<close>

datatype cls = Word | Digit | AnyChar | OneOf string

definition word_chars :: string where
  "word_chars = ''abcdefghijklmnopqrstuvwxyzABCDEFGHIJKLMNOPQRSTUVWXYZ0123456789_''"

fun cls_match :: "cls \<Rightarrow> char \<Rightarrow> bool" where
  "cls_match Word c = (c \<in> set word_chars)"
| "cls_match Digit c = (c \<in> set ''0123456789'')"
| "cls_match AnyChar c = (c \<noteq> CHR 0x0A)"
| "cls_match (OneOf cs) c = (c \<in> set cs)"

datatype regex =
    Lit string
  | Cls cls
  | Rep cls nat nat
  | LazyPlus cls
  | Eos
  | Seq "regex list"
  | Alt regex regex
  | Opt regex
  | Group string regex

type_synonym caps = "(string \<times> string) list"

fun rep_greedy :: "cls \<Rightarrow> nat \<Rightarrow> nat \<Rightarrow> string \<Rightarrow> (string \<Rightarrow> 'a option) \<Rightarrow> 'a option" where
  "rep_greedy c lo hi [] k = (if lo = 0 then k [] else None)"
| "rep_greedy c lo hi (x # xs) k =
     (if 0 < hi \<and> cls_match c x
      then (case rep_greedy c (lo - 1) (hi - 1) xs k of
              Some r \<Rightarrow> Some r
            | None \<Rightarrow> if lo = 0 then k (x # xs) else None)
      else if lo = 0 then k (x # xs) else None)"

fun lazy_plus :: "cls \<Rightarrow> string \<Rightarrow> (string \<Rightarrow> 'a option) \<Rightarrow> 'a option" where
  "lazy_plus c [] k = None"
| "lazy_plus c (x # xs) k =
     (if cls_match c x
      then (case k xs of Some r \<Rightarrow> Some r | None \<Rightarrow> lazy_plus c xs k)
      else None)"

fun rmatch :: "regex \<Rightarrow> string \<Rightarrow> caps \<Rightarrow> (string \<Rightarrow> caps \<Rightarrow> 'a option) \<Rightarrow> 'a option" where
  "rmatch (Lit l) s cs k = (if take (length l) s = l then k (drop (length l) s) cs else None)"
| "rmatch (Cls c) s cs k = (case s of [] \<Rightarrow> None | x # xs \<Rightarrow> if cls_match c x then k xs cs else None)"
| "rmatch (Rep c lo hi) s cs k = rep_greedy c lo hi s (\<lambda>s'. k s' cs)"
| "rmatch (LazyPlus c) s cs k = lazy_plus c s (\<lambda>s'. k s' cs)"
| "rmatch Eos s cs k = (if s = [] \<or> s = [CHR 0x0A] then k s cs else None)"
| "rmatch (Seq []) s cs k = k s cs"
| "rmatch (Seq (r # rs)) s cs k = rmatch r s cs (\<lambda>s' cs'. rmatch (Seq rs) s' cs' k)"
| "rmatch (Alt r1 r2) s cs k =
     (case rmatch r1 s cs k of Some m \<Rightarrow> Some m | None \<Rightarrow> rmatch r2 s cs k)"
| "rmatch (Opt r) s cs k =
     (case rmatch r s cs k of Some m \<Rightarrow> Some m | None \<Rightarrow> k s cs)"
| "rmatch (Group n r) s cs k =
     rmatch r s cs (\<lambda>s' cs'. k s' ((n, take (length s - length s') s) # cs'))"

text \<open>
  \<open>match_at\<close> matches at the start of the text and returns the groups and the text left;
  \<open>search\<close> is \<^verbatim>\<open>re.search\<close>, the first position with a match; \<open>finditer\<close> lists the
  matches of \<^verbatim>\<open>re.finditer\<close>, each search starting where the match before ended (one
  character later after an empty match or none).
\<close>

definition match_at :: "regex \<Rightarrow> string \<Rightarrow> (caps \<times> string) option" where
  "match_at r s = rmatch r s [] (\<lambda>s' cs. Some (cs, s'))"

fun search :: "regex \<Rightarrow> string \<Rightarrow> caps option" where
  "search r [] = map_option fst (match_at r [])"
| "search r (x # xs) =
     (case match_at r (x # xs) of Some m \<Rightarrow> Some (fst m) | None \<Rightarrow> search r xs)"

function finditer :: "regex \<Rightarrow> string \<Rightarrow> caps list" where
  "finditer r s =
     (case match_at r s of
        Some (cs, s') \<Rightarrow>
          (if length s' < length s then cs # finditer r s'
           else cs # (case s of [] \<Rightarrow> [] | x # xs \<Rightarrow> finditer r xs))
      | None \<Rightarrow> (case s of [] \<Rightarrow> [] | x # xs \<Rightarrow> finditer r xs))"
  by pat_completeness auto
termination
  by (relation "measure (\<lambda>(r, s). length s)") auto

declare finditer.simps [simp del]


section \<open>The capacitance module (\<^verbatim>\<open>KeysightB1520A.py\<close>)\<close>

subsection \<open>Constants, messages and the instrument link\<close>

text \<open>
  The enumerations of \<^verbatim>\<open>constants.py\<close> are not under src/: the members the driver
  names are the fields of a record that every operation takes as a parameter.
\<close>

record constants =
  RangingMode_AUTO :: int
  MM_Mode_SPOT_C :: int
  LRN_Type_CV_DC_BIAS_SWEEP_MEASUREMENT_SETTINGS :: int

text \<open>
  \<^verbatim>\<open>message_builder.py\<close> is not under src/ either: a message is recorded as the call
  that builds it, with the arguments the driver passes (\<^verbatim>\<open>mm(mode, channels)\<close>,
  \<^verbatim>\<open>tc(chnum, mode)\<close>, \<^verbatim>\<open>rc(chnum, ranging_mode, measurement_range)\<close>, \<^verbatim>\<open>xe()\<close>,
  \<^verbatim>\<open>lrn_query(type_id)\<close>), or as its text when the driver gives the text.
\<close>

datatype message =
    MB_mm int "int list"
  | MB_tc int int
  | MB_rc int int "int option"
  | MB_xe
  | MB_lrn_query int
  | Text string

text \<open>
  The attributes of a \<^verbatim>\<open>B1520A\<close> that the operations below read or assign, the values
  last read for the parameters of the group \<^verbatim>\<open>set_sweep_steps\<close>, and the link: the
  messages sent so far and the replies the instrument will give, in order.
\<close>

record b1520a =
  channels :: int
  setup_fnc_already_run :: bool
  ranging_mode :: int
  measurement_range_for_non_auto :: "int option"
  sweep_cache :: "(string \<times> pyval) list"
  sent :: "message list"
  replies :: "string list"

text \<open>
  Modelled from the spec: \<^verbatim>\<open>self.write\<close> and \<^verbatim>\<open>self.ask\<close> of the instrument base
  class (not under src/), the spec's \<^verbatim>\<open>send\<close> and \<^verbatim>\<open>send_and_receive\<close>: a write sends
  the message; an ask sends it and returns the next reply, or fails with a timeout when
  there is none.
\<close>

definition link_write :: "message \<Rightarrow> b1520a \<Rightarrow> b1520a" where
  "link_write msg st = st\<lparr>sent := sent st @ [msg]\<rparr>"

definition link_ask :: "message \<Rightarrow> b1520a \<Rightarrow> (error + string) \<times> b1520a" where
  "link_ask msg st =
     (case replies st of
        [] \<Rightarrow> (Inl VisaTimeout, st\<lparr>sent := sent st @ [msg]\<rparr>)
      | r # rs \<Rightarrow> (Inr r, st\<lparr>sent := sent st @ [msg], replies := rs\<rparr>))"

text \<open>What lines 178 to 182 of \<^verbatim>\<open>__init__\<close> assign.\<close>

definition initialised :: "constants \<Rightarrow> int \<Rightarrow> b1520a \<Rightarrow> bool" where
  "initialised K slot_nr st \<longleftrightarrow>
     channels st = slot_nr \<and> \<not> setup_fnc_already_run st \<and>
     ranging_mode st = RangingMode_AUTO K \<and> measurement_range_for_non_auto st = None"

subsection \<open>Spot measurement\<close>

text \<open>The pattern of lines 20 and 21.\<close>

definition pattern :: regex where
  "pattern = Seq
     [Opt (Seq [Group ''status'' (Cls Word), Group ''chnr'' (Cls Word), Group ''dtype'' (Cls Word)]),
      Group ''value''
        (Seq [Cls (OneOf ''+-''), Rep Digit 1 3, Lit ''.'', Rep Digit 3 6, Lit ''E'',
              Cls (OneOf ''+-''), Rep Digit 2 2])]"

definition set_measurement_mode :: "int \<Rightarrow> b1520a \<Rightarrow> b1520a" where
  "set_measurement_mode mode st = link_write (MB_mm mode [channels st]) st"

text \<open>
  \<^verbatim>\<open>_get_capacitance\<close>, lines 409 to 427: \<open>get_capacitance_parse\<close> is the part after
  the reply has arrived. \<^verbatim>\<open>float(None)\<close> raises a \<^verbatim>\<open>TypeError\<close>.
\<close>

definition get_capacitance_parse :: "string \<Rightarrow> error + pyfloat \<times> pyfloat" where
  "get_capacitance_parse response =
     (case finditer pattern response of
        [p0, p1] \<Rightarrow>
          if map_of p0 ''dtype'' \<noteq> Some ''C'' \<or> map_of p1 ''dtype'' \<noteq> Some ''Y''
          then Inl (ValueError ''Result format not supported.'')
          else
            (case (map_of p0 ''value'', map_of p1 ''value'') of
               (Some v0, Some v1) \<Rightarrow>
                 (case py_float v0 of
                    Inl e \<Rightarrow> Inl e
                  | Inr x0 \<Rightarrow> (case py_float v1 of Inl e \<Rightarrow> Inl e | Inr x1 \<Rightarrow> Inr (x0, x1)))
             | _ \<Rightarrow> Inl TypeError)
      | _ \<Rightarrow> Inl (ValueError ''Result format not supported.''))"

definition get_capacitance :: "constants \<Rightarrow> b1520a \<Rightarrow> (error + pyfloat \<times> pyfloat) \<times> b1520a" where
  "get_capacitance K st =
     (let st1 = set_measurement_mode (MM_Mode_SPOT_C K) st;
          (response, st2) = link_ask (MB_tc (channels st1) (RangingMode_AUTO K)) st1
      in case response of
           Inl e \<Rightarrow> (Inl e, st2)
         | Inr r \<Rightarrow> (get_capacitance_parse r, st2))"

subsection \<open>The sweep group\<close>

text \<open>The pattern and the parser of lines 477 to 493.\<close>

definition wdcv :: regex where
  "wdcv = Seq [Lit ''WDCV'', Group ''chan'' (LazyPlus AnyChar), Lit '','',
      Group ''sweep_mode'' (LazyPlus AnyChar), Lit '','',
      Group ''sweep_start'' (LazyPlus AnyChar), Lit '','',
      Group ''sweep_end'' (LazyPlus AnyChar), Lit '','',
      Group ''sweep_steps'' (LazyPlus AnyChar), Alt (Lit '';'') Eos]"

definition group_str :: "caps \<Rightarrow> string \<Rightarrow> error + string" where
  "group_str m name = (case map_of m name of None \<Rightarrow> Inl TypeError | Some v \<Rightarrow> Inr v)"

definition get_sweep_steps_parser :: "string \<Rightarrow> error + (string \<times> pyval) list" where
  "get_sweep_steps_parser response =
     (case search wdcv response of
        None \<Rightarrow> Inl (ValueError ''Sweep steps (WDCV) not found.'')
      | Some out_str \<Rightarrow>
          bind (bind (group_str out_str ''chan'') py_int) (\<lambda>chan.
          bind (bind (group_str out_str ''sweep_mode'') py_int) (\<lambda>sweep_mode.
          bind (bind (group_str out_str ''sweep_start'') py_float) (\<lambda>sweep_start.
          bind (bind (group_str out_str ''sweep_end'') py_float) (\<lambda>sweep_end.
          bind (bind (group_str out_str ''sweep_steps'') py_int) (\<lambda>sweep_steps.
          Inr [(''chan'', PInt chan), (''sweep_mode'', PInt sweep_mode),
               (''sweep_start'', PFloat sweep_start), (''sweep_end'', PFloat sweep_end),
               (''sweep_steps'', PInt sweep_steps)]))))))"

text \<open>The template \<^verbatim>\<open>set_cmd\<close> of the group (lines 255 to 260).\<close>

definition set_sweep_steps_set_cmd :: string where
  "set_sweep_steps_set_cmd =
     ''WDCV '' @ ''{chan},'' @ ''{sweep_mode},'' @ ''{sweep_start},'' @ ''{sweep_end},'' @ ''{sweep_steps}''"

text \<open>
  Modelled from the spec: the composite write of a \<^verbatim>\<open>Group\<close>
  (qcodes.instrument.group_parameter is not under src/): the command is the template with
  the value of each member of the group in the place of its name.
\<close>

definition group_command ::
  "(pyfloat \<Rightarrow> string) \<Rightarrow> string \<Rightarrow> (string \<times> pyval) list \<Rightarrow> error + string" where
  "group_command float_repr set_cmd calling_dict = py_format (py_str float_repr) calling_dict set_cmd"

text \<open>
  Modelled from the spec: the read of a member of a \<^verbatim>\<open>Group\<close>
  (qcodes.instrument.group_parameter is not under src/): one composite query, its reply
  parsed by the group's parser, every member refreshed or, on a failure, none.
\<close>

definition group_update :: "constants \<Rightarrow> b1520a \<Rightarrow> (error + unit) \<times> b1520a" where
  "group_update K st =
     (let (response, st1) = link_ask (MB_lrn_query (LRN_Type_CV_DC_BIAS_SWEEP_MEASUREMENT_SETTINGS K)) st
      in case bind response get_sweep_steps_parser of
           Inl e \<Rightarrow> (Inl e, st1)
         | Inr vals \<Rightarrow> (Inr (), st1\<lparr>sweep_cache := vals\<rparr>))"

definition sweep_steps_get :: "constants \<Rightarrow> b1520a \<Rightarrow> (error + pyval) \<times> b1520a" where
  "sweep_steps_get K st =
     (case group_update K st of
        (Inl e, st1) \<Rightarrow> (Inl e, st1)
      | (Inr u, st1) \<Rightarrow>
          (case map_of (sweep_cache st1) ''sweep_steps'' of
             None \<Rightarrow> (Inl (KeyError ''sweep_steps''), st1)
           | Some v \<Rightarrow> (Inr v, st1)))"

subsection \<open>Ranging\<close>

text \<open>Lines 535 to 553.\<close>

definition set_ranging_mode :: "constants \<Rightarrow> int \<Rightarrow> b1520a \<Rightarrow> b1520a" where
  "set_ranging_mode K val st =
     (let st1 = st\<lparr>ranging_mode := val\<rparr>;
          st2 = (if val = RangingMode_AUTO K
                 then st1\<lparr>measurement_range_for_non_auto := None\<rparr> else st1)
      in link_write (MB_rc (channels st2) (ranging_mode st2) (measurement_range_for_non_auto st2)) st2)"

definition set_measurement_range_for_non_auto :: "int option \<Rightarrow> b1520a \<Rightarrow> b1520a" where
  "set_measurement_range_for_non_auto val st =
     (let st1 = st\<lparr>measurement_range_for_non_auto := val\<rparr>
      in link_write (MB_rc (channels st1) (ranging_mode st1) (measurement_range_for_non_auto st1)) st1)"

text \<open>
  The invariant of the ranging attributes: no fixed range is kept while the mode is
  automatic.
\<close>

definition range_invariant :: "constants \<Rightarrow> b1520a \<Rightarrow> bool" where
  "range_invariant K st \<longleftrightarrow>
     (ranging_mode st = RangingMode_AUTO K \<longrightarrow> measurement_range_for_non_auto st = None)"

subsection \<open>Sweep voltages\<close>

text \<open>
  \<^verbatim>\<open>_cv_sweep_voltages\<close>, lines 343 to 392, as a function of what the four parameter
  reads return. Voltages are real numbers. \<^verbatim>\<open>np.linspace\<close> is written out;
  \<^verbatim>\<open>np.log10\<close> and the power of ten of \<^verbatim>\<open>np.logspace\<close> are the parameters \<open>log10\<close>
  and \<open>power10\<close>. The lambda \<^verbatim>\<open>sign\<close> returns its argument when that is zero.
\<close>

definition sign :: "real \<Rightarrow> real" where
  "sign s = (if s = 0 then s else if s < 0 then - 1 else 1)"

definition linspace :: "real \<Rightarrow> real \<Rightarrow> int \<Rightarrow> bool \<Rightarrow> error + real list" where
  "linspace start stop num endpoint =
     (if num < 0 then Inl (ValueError ''Number of samples must be non-negative.'')
      else
        (let n = nat num;
             d = (if endpoint then num - 1 else num);
             delta = stop - start;
             y = (if 0 < d then map (\<lambda>i. start + real i * (delta / real_of_int d)) [0 ..< n]
                  else map (\<lambda>i. start + real i * delta) [0 ..< n])
         in Inr (if endpoint \<and> 1 < num then butlast y @ [stop] else y)))"

definition logspace ::
  "(real \<Rightarrow> real) \<Rightarrow> real \<Rightarrow> real \<Rightarrow> int \<Rightarrow> bool \<Rightarrow> error + real list" where
  "logspace power10 start stop num endpoint = map_sum id (map power10) (linspace start stop num endpoint)"

definition linear_sweep :: "real \<Rightarrow> real \<Rightarrow> int \<Rightarrow> error + real list" where
  "linear_sweep start end steps = linspace start end steps True"

definition log_sweep ::
  "(real \<Rightarrow> real) \<Rightarrow> (real \<Rightarrow> real) \<Rightarrow> real \<Rightarrow> real \<Rightarrow> int \<Rightarrow> error + real list" where
  "log_sweep log10 power10 start end steps = logspace power10 (log10 start) (log10 end) steps True"

definition linear_2way_sweep :: "real \<Rightarrow> real \<Rightarrow> int \<Rightarrow> error + real list" where
  "linear_2way_sweep start end steps =
     (if steps mod 2 = 0
      then bind (linspace start end (steps div 2) True) (\<lambda>half_list. Inr (half_list @ rev half_list))
      else bind (linspace start end (steps div 2) False)
             (\<lambda>half_list. Inr (half_list @ [end] @ rev half_list)))"

definition log_2way_sweep ::
  "(real \<Rightarrow> real) \<Rightarrow> (real \<Rightarrow> real) \<Rightarrow> real \<Rightarrow> real \<Rightarrow> int \<Rightarrow> error + real list" where
  "log_2way_sweep log10 power10 start end steps =
     (if steps mod 2 = 0
      then bind (logspace power10 (log10 start) (log10 end) (steps div 2) True)
             (\<lambda>half_list. Inr (half_list @ rev half_list))
      else bind (logspace power10 (log10 start) (log10 end) (steps div 2) False)
             (\<lambda>half_list. Inr (half_list @ [end] @ rev half_list)))"

definition cv_sweep_voltages ::
  "(real \<Rightarrow> real) \<Rightarrow> (real \<Rightarrow> real) \<Rightarrow> int \<Rightarrow> real \<Rightarrow> real \<Rightarrow> int \<Rightarrow> error + real list" where
  "cv_sweep_voltages log10 power10 sweep_mode sweep_start sweep_end sweep_steps =
     (let polarity =
            (if (sweep_mode = 2 \<or> sweep_mode = 4) \<and> \<not> sign sweep_start = sign sweep_end
             then if sign sweep_start = 0 then Inr (sign sweep_start * 0.005, sweep_end)
                  else if sign sweep_end = 0 then Inr (sweep_start, sign sweep_end * 0.005)
                  else Inl (AssertionError ''Polarity of start and end is not same.'')
             else Inr (sweep_start, sweep_end))
      in bind polarity (\<lambda>(start_value, end_value).
           if sweep_mode = 1 then linear_sweep start_value end_value sweep_steps
           else if sweep_mode = 2 then log_sweep log10 power10 start_value end_value sweep_steps
           else if sweep_mode = 3 then linear_2way_sweep start_value end_value sweep_steps
           else if sweep_mode = 4 then log_2way_sweep log10 power10 start_value end_value sweep_steps
           else Inl (KeyError (str_int sweep_mode))))"

subsection \<open>Sweep measurement\<close>



text \<open>
  \<^verbatim>\<open>CVSweepMeasurement.get_raw\<close>, lines 713 to 729. After the guard it reads
  \<^verbatim>\<open>sweep_steps\<close> and then looks up \<^verbatim>\<open>cvsweep\<close> on the module, whose submodule is
  registered as \<^verbatim>\<open>cv_sweep\<close> (line 224): the lookup raises, and the lines after it are
  never reached.
\<close>

definition get_raw :: "constants \<Rightarrow> b1520a \<Rightarrow> (error + pyfloat list \<times> pyfloat list) \<times> b1520a" where
  "get_raw K st =
     (if \<not> setup_fnc_already_run st
      then (Inl (Warning ''Sweep setup has not yet been run successfully''), st)
      else
        (case sweep_steps_get K st of
           (Inl e, st1) \<Rightarrow> (Inl e, st1)
         | (Inr num_steps, st1) \<Rightarrow> (Inl (AttributeError ''cvsweep''), st1)))"

subsection \<open>Concrete instances\<close>

text \<open>
  An instance of the constants, a printing of floats that is Python's on integral
  values, and a module in slot 1 that has not been set up, with given replies pending.
\<close>

definition demo_constants :: constants where
  "demo_constants = \<lparr>RangingMode_AUTO = 0, MM_Mode_SPOT_C = 17,
     LRN_Type_CV_DC_BIAS_SWEEP_MEASUREMENT_SETTINGS = 73\<rparr>"

definition demo_float_repr :: "pyfloat \<Rightarrow> string" where
  "demo_float_repr x =
     (case x of Finite r \<Rightarrow> str_int \<lfloor>r\<rfloor> @ ''.0'' | PosInf \<Rightarrow> ''inf'' | NegInf \<Rightarrow> ''-inf'' | NaN \<Rightarrow> ''nan'')"

definition demo_module :: "string list \<Rightarrow> b1520a" where
  "demo_module rs = \<lparr>channels = 1, setup_fnc_already_run = False, ranging_mode = 0,
     measurement_range_for_non_auto = None, sweep_cache = [], sent = [], replies = rs\<rparr>"

section \<open>Properties of the schema upgrade\<close>

lemma no_of_runs_eq: "no_of_runs c = n_runs c"
  by (simp add: no_of_runs_def select_max_run_id_def)

lemma get_update_description:
  "get_run_description (update_run_description c i nj) k =
     (if k = i then Some nj else get_run_description c k)"
  by (simp add: get_run_description_def update_run_description_def)

lemma upgrade_runs_fails:
  "K \<in> set ids \<Longrightarrow> new_json loads dumps E (get_run_description c K) = Inl e \<Longrightarrow>
   \<exists>e'. upgrade_runs loads dumps E ids c = Inl e'"
proof (induction ids arbitrary: c)
  case Nil
  then show ?case by simp
next
  case (Cons i rest)
  show ?case
  proof (cases "new_json loads dumps E (get_run_description c i)")
    case (Inl a)
    then show ?thesis by simp
  next
    case (Inr nj)
    with Cons.prems have "K \<noteq> i" by auto
    with Cons.prems have "K \<in> set rest" by simp
    moreover have "new_json loads dumps E (get_run_description (update_run_description c i nj) K) = Inl e"
      using \<open>K \<noteq> i\<close> Cons.prems(2) by (simp add: get_update_description)
    ultimately have "\<exists>e'. upgrade_runs loads dumps E rest (update_run_description c i nj) = Inl e'"
      by (rule Cons.IH)
    with Inr show ?thesis by simp
  qed
qed

lemma upgrade_runs_ok:
  "distinct ids \<Longrightarrow> upgrade_runs loads dumps E ids c = Inr c' \<Longrightarrow>
   n_runs c' = n_runs c \<and>
   (\<forall>k \<in> set ids. \<exists>s. new_json loads dumps E (get_run_description c k) = Inr s
        \<and> get_run_description c' k = Some s) \<and>
   (\<forall>k. k \<notin> set ids \<longrightarrow> get_run_description c' k = get_run_description c k)"
proof (induction ids arbitrary: c)
  case Nil
  then show ?case by simp
next
  case (Cons i rest)
  from Cons.prems(2) obtain nj where
    nj: "new_json loads dumps E (get_run_description c i) = Inr nj"
    and rest: "upgrade_runs loads dumps E rest (update_run_description c i nj) = Inr c'"
    by (auto split: sum.splits)
  let ?c1 = "update_run_description c i nj"
  from Cons.prems(1) have d: "distinct rest" and ni: "i \<notin> set rest" by simp_all
  note IH = Cons.IH [OF d rest]
  have n: "n_runs c' = n_runs c"
    using IH by (simp add: update_run_description_def)
  have out: "get_run_description c' k = get_run_description ?c1 k" if "k \<notin> set rest" for k
    using IH that by blast
  have inn: "\<exists>s. new_json loads dumps E (get_run_description ?c1 k) = Inr s
        \<and> get_run_description c' k = Some s" if "k \<in> set rest" for k
    using IH that by blast
  have a: "\<exists>s. new_json loads dumps E (get_run_description c k) = Inr s
        \<and> get_run_description c' k = Some s" if k: "k \<in> set (i # rest)" for k
  proof (cases "k = i")
    case True
    with ni out [of i] have "get_run_description c' k = Some nj"
      by (simp add: get_update_description)
    with True nj show ?thesis by simp
  next
    case False
    with k have "k \<in> set rest" by simp
    from inn [OF this] False show ?thesis by (simp add: get_update_description)
  qed
  have b: "get_run_description c' k = get_run_description c k" if k: "k \<notin> set (i # rest)" for k
    using out [of k] k by (simp add: get_update_description)
  from n a b show ?case by blast
qed

lemma upgrade_runs_fixpoint:
  "(\<And>k. k \<in> set ids \<Longrightarrow> \<exists>s. get_run_description c k = Some s \<and>
        new_json loads dumps E (Some s) = Inr s) \<Longrightarrow>
   upgrade_runs loads dumps E ids c = Inr c"
proof (induction ids)
  case Nil
  then show ?case by simp
next
  case (Cons i rest)
  from Cons.prems [of i] obtain s where
    s: "get_run_description c i = Some s" "new_json loads dumps E (Some s) = Inr s" by auto
  have "update_run_description c i s = c"
    using s(1) by (simp add: update_run_description_def get_run_description_def fun_upd_idem)
  moreover have "upgrade_runs loads dumps E rest c = Inr c"
    using Cons.prems by (intro Cons.IH) simp
  ultimately show ?case using s by simp
qed

lemmas demo_eval = upgrade_5_to_6_def run_ids_def no_of_runs_eq atomic_def upt_rec numeral_2_eq_2 numeral_3_eq_3 new_json_def new_ser_def 
   get_run_description_def update_run_description_def demo_loads_def demo_empty_idps_def demo_quote_def str_int_def str_nat.simps

lemma run_ids_set: "k \<in> set (run_ids c) \<longleftrightarrow> 1 \<le> k \<and> k \<le> no_of_runs c"
  by (auto simp: run_ids_def)

lemma run_ids_distinct: "distinct (run_ids c)"
  by (simp add: run_ids_def del: upt_Suc)

lemma upgrade_5_to_6_cases:
  "upgrade_5_to_6 loads dumps E c =
     (case upgrade_runs loads dumps E (run_ids c) c of Inl e \<Rightarrow> (Some e, c) | Inr c' \<Rightarrow> (None, c'))"
  by (simp add: upgrade_5_to_6_def atomic_def)


text \<open>
  Claim C1. If the description of some run \<open>K\<close> among \<open>1..no_of_runs\<close> makes the upgrade
  raise (\<^verbatim>\<open>json.loads\<close> rejects it, or it has no \<^verbatim>\<open>interdependencies\<close>), then the
  call to \<open>upgrade_5_to_6\<close> raises, and the persisted store is the store before the call:
  in particular every run below \<open>K\<close> keeps its description, although the loop had
  rewritten it inside the transaction.
\<close>

theorem upgrade_5_to_6_rolls_back:
  assumes "1 \<le> K" and "K \<le> no_of_runs c"
    and "new_json loads dumps E (get_run_description c K) = Inl e"
  shows "(\<exists>e'. fst (upgrade_5_to_6 loads dumps E c) = Some e')
       \<and> (\<forall>run_id < K. get_run_description (snd (upgrade_5_to_6 loads dumps E c)) run_id
                          = get_run_description c run_id)
       \<and> snd (upgrade_5_to_6 loads dumps E c) = c"
proof -
  from assms(1,2) have "K \<in> set (run_ids c)" by (simp add: run_ids_set)
  from upgrade_runs_fails [OF this assms(3)] obtain e' where
    "upgrade_runs loads dumps E (run_ids c) c = Inl e'" ..
  then have "upgrade_5_to_6 loads dumps E c = (Some e', c)"
    by (simp add: upgrade_5_to_6_cases)
  then show ?thesis by simp
qed

text \<open>
  On the store \<open>demo_conn_bad\<close>, whose third description is cut off, the loop has
  rewritten runs 1 and 2 when it reaches run 3; the rollback undoes both writes.
\<close>

lemma demo_conn_bad_uncommitted:
  "upgrade_runs demo_loads demo_dumps demo_empty_idps [1, 2] demo_conn_bad =
     Inr \<lparr>n_runs = 3, description = (\<lambda>_. None)
      (1 := Some ''{\"version\": 0, \"interdependencies\": {\"paramspecs\": []}}'',
       3 := Some ''{\"interdependencies\": '',
       2 := Some ''{\"version\": 0, \"interdependencies\": {\"paramspecs\": []}}'')\<rparr>"
  by (simp add: demo_eval demo_conn_bad_def fun_upd_twist)

theorem upgrade_5_to_6_rolls_back_witness:
  "new_json demo_loads demo_dumps demo_empty_idps (get_run_description demo_conn_bad 3) = Inl JSONDecodeError
   \<and> fst (upgrade_5_to_6 demo_loads demo_dumps demo_empty_idps demo_conn_bad) = Some JSONDecodeError
   \<and> get_run_description (snd (upgrade_5_to_6 demo_loads demo_dumps demo_empty_idps demo_conn_bad)) 1
       = Some ''{\"interdependencies\": {\"paramspecs\": []}}''
   \<and> get_run_description (snd (upgrade_5_to_6 demo_loads demo_dumps demo_empty_idps demo_conn_bad)) 2
       = None"
proof -
  have h: "new_json demo_loads demo_dumps demo_empty_idps (get_run_description demo_conn_bad 3)
             = Inl JSONDecodeError"
    by (simp add: demo_eval demo_conn_bad_def)
  have k: "(1::nat) \<le> 3" "3 \<le> no_of_runs demo_conn_bad"
    by (simp_all add: no_of_runs_eq demo_conn_bad_def)
  from upgrade_5_to_6_rolls_back [OF k h]
  have r: "snd (upgrade_5_to_6 demo_loads demo_dumps demo_empty_idps demo_conn_bad) = demo_conn_bad"
    and f: "\<exists>e'. fst (upgrade_5_to_6 demo_loads demo_dumps demo_empty_idps demo_conn_bad) = Some e'"
    by simp_all
  have "fst (upgrade_5_to_6 demo_loads demo_dumps demo_empty_idps demo_conn_bad) = Some JSONDecodeError"
    by (simp add: demo_eval demo_conn_bad_def)
  with h r show ?thesis
    by (simp add: get_run_description_def demo_conn_bad_def)
qed


lemma demo_conn_ok_upgrade:
  "upgrade_5_to_6 demo_loads demo_dumps demo_empty_idps demo_conn_ok = (None, demo_conn_done)"
  by (simp add: demo_eval demo_conn_ok_def demo_conn_done_def)


text \<open>
  Every document the upgrade writes has exactly the two entries \<^verbatim>\<open>version\<close> (always 0)
  and \<^verbatim>\<open>interdependencies\<close>, in this order.
\<close>

lemma new_ser_shape:
  "new_ser loads E j = Inr d \<Longrightarrow> \<exists>x. d = JObj [(''version'', JInt 0), (''interdependencies'', x)]"
  by (auto simp: new_ser_def split: option.splits sum.splits)

lemma new_json_fixpoint:
  assumes "new_ser loads E j = Inr d" and "loads (dumps d) = Some d"
  shows "new_json loads dumps E (Some (dumps d)) = Inr (dumps d)"
proof -
  from new_ser_shape [OF assms(1)] obtain x where
    d: "d = JObj [(''version'', JInt 0), (''interdependencies'', x)]" ..
  with assms(2) show ?thesis by (simp add: new_json_def new_ser_def)
qed

text \<open>
  Claim C3, amended. When the upgrade commits, a run whose description parses to a dict
  with an \<^verbatim>\<open>interdependencies\<close> entry gets the text of the document whose first entry
  is \<^verbatim>\<open>version\<close>, always with the value 0, and whose second entry is the parsed
  \<^verbatim>\<open>interdependencies\<close> value unchanged. If moreover \<^verbatim>\<open>json.loads\<close> reads back
  every document that was written, a second upgrade commits and leaves the whole store
  as it is.
\<close>

theorem upgrade_5_to_6_rewrites_description:
  assumes "upgrade_5_to_6 loads dumps E c = (None, c')"
    and "1 \<le> run_id" and "run_id \<le> no_of_runs c"
    and "get_run_description c run_id = Some s"
    and "loads s = Some (JObj kvs)"
    and "map_of kvs ''interdependencies'' = Some idps"
  shows "get_run_description c' run_id =
            Some (dumps (JObj [(''version'', JInt 0), (''interdependencies'', idps)]))
       \<and> ((\<forall>k d. 1 \<le> k \<and> k \<le> no_of_runs c
                  \<and> new_ser loads E (get_run_description c k) = Inr d
               \<longrightarrow> loads (dumps d) = Some d)
            \<longrightarrow> upgrade_5_to_6 loads dumps E c' = (None, c'))"
proof -
  from assms(1) have ok: "upgrade_runs loads dumps E (run_ids c) c = Inr c'"
    by (simp add: upgrade_5_to_6_cases split: sum.splits)
  note props = upgrade_runs_ok [OF run_ids_distinct ok]
  from assms(2,3) have "run_id \<in> set (run_ids c)" by (simp add: run_ids_set)
  with props obtain t where
    "new_json loads dumps E (get_run_description c run_id) = Inr t"
    "get_run_description c' run_id = Some t" by blast
  with assms(4,5,6) have first: "get_run_description c' run_id =
      Some (dumps (JObj [(''version'', JInt 0), (''interdependencies'', idps)]))"
    by (simp add: new_json_def new_ser_def)
  have second: "upgrade_5_to_6 loads dumps E c' = (None, c')"
    if rt: "\<forall>k d. 1 \<le> k \<and> k \<le> no_of_runs c
                  \<and> new_ser loads E (get_run_description c k) = Inr d
               \<longrightarrow> loads (dumps d) = Some d"
  proof -
    from props have "run_ids c' = run_ids c"
      by (simp add: run_ids_def no_of_runs_eq)
    have "upgrade_runs loads dumps E (run_ids c) c' = Inr c'"
    proof (rule upgrade_runs_fixpoint)
      fix k assume k: "k \<in> set (run_ids c)"
      with props obtain t where
        t: "new_json loads dumps E (get_run_description c k) = Inr t"
           "get_run_description c' k = Some t" by blast
      from t(1) obtain d where
        d: "new_ser loads E (get_run_description c k) = Inr d" "t = dumps d"
        by (auto simp: new_json_def split: sum.splits)
      from k have "1 \<le> k \<and> k \<le> no_of_runs c" by (simp add: run_ids_set)
      with rt d(1) have "loads (dumps d) = Some d" by blast
      with d(1) have "new_json loads dumps E (Some (dumps d)) = Inr (dumps d)"
        by (rule new_json_fixpoint)
      with t(2) d(2)
      show "\<exists>s. get_run_description c' k = Some s \<and> new_json loads dumps E (Some s) = Inr s"
        by simp
    qed
    with \<open>run_ids c' = run_ids c\<close> show ?thesis by (simp add: upgrade_5_to_6_cases)
  qed
  from first second show ?thesis by blast
qed

lemma demo_roundtrip:
  "\<forall>k d. 1 \<le> k \<and> k \<le> no_of_runs demo_conn_ok
          \<and> new_ser demo_loads demo_empty_idps (get_run_description demo_conn_ok k) = Inr d
       \<longrightarrow> demo_loads (demo_dumps d) = Some d"
proof (intro allI impI)
  fix k d
  assume a: "1 \<le> k \<and> k \<le> no_of_runs demo_conn_ok
          \<and> new_ser demo_loads demo_empty_idps (get_run_description demo_conn_ok k) = Inr d"
  then have "k = 1 \<or> k = 2" by (auto simp: no_of_runs_eq demo_conn_ok_def)
  then show "demo_loads (demo_dumps d) = Some d"
  proof
    assume "k = 1"
    with a have "d = JObj [(''version'', JInt 0), (''interdependencies'', JObj [(''paramspecs'', JArr [])])]"
      by (simp add: new_ser_def get_run_description_def demo_conn_ok_def demo_loads_def)
    then show ?thesis by (simp add: demo_loads_def demo_quote_def str_int_def str_nat.simps)
  next
    assume "k = 2"
    with a have "d = JObj [(''version'', JInt 0), (''interdependencies'', JObj [(''paramspecs'', JArr [])])]"
      by (simp add: new_ser_def get_run_description_def demo_conn_ok_def demo_empty_idps_def)
    then show ?thesis by (simp add: demo_loads_def demo_quote_def str_int_def str_nat.simps)
  qed
qed

theorem upgrade_5_to_6_rewrites_description_witness:
  "get_run_description demo_conn_ok 1 = Some ''{\"interdependencies\": {\"paramspecs\": []}}''
   \<and> get_run_description demo_conn_done 1 =
        Some ''{\"version\": 0, \"interdependencies\": {\"paramspecs\": []}}''
   \<and> upgrade_5_to_6 demo_loads demo_dumps demo_empty_idps demo_conn_done = (None, demo_conn_done)"
proof -
  have h: "get_run_description demo_conn_ok 1 = Some ''{\"interdependencies\": {\"paramspecs\": []}}''"
    by (simp add: get_run_description_def demo_conn_ok_def)
  have l: "demo_loads ''{\"interdependencies\": {\"paramspecs\": []}}'' =
             Some (JObj [(''interdependencies'', JObj [(''paramspecs'', JArr [])])])"
    by (simp add: demo_loads_def)
  have m: "map_of [(''interdependencies'', JObj [(''paramspecs'', JArr [])])] ''interdependencies''
             = Some (JObj [(''paramspecs'', JArr [])])"
    by simp
  have k: "(1::nat) \<le> 1" "1 \<le> no_of_runs demo_conn_ok"
    by (simp_all add: no_of_runs_eq demo_conn_ok_def)
  from upgrade_5_to_6_rewrites_description [OF demo_conn_ok_upgrade k h l m] demo_roundtrip h
  show ?thesis
    by (simp add: demo_quote_def str_int_def str_nat.simps)
qed

text \<open>
  Claim C3 as stated fails: the version is not kept when the stored document has one.
  A description with \<^verbatim>\<open>"version": 3\<close> is rewritten with \<^verbatim>\<open>"version": 0\<close>.
\<close>

theorem upgrade_5_to_6_version_counterexample:
  "demo_loads ''{\"version\": 3, \"interdependencies\": {\"paramspecs\": []}}'' =
     Some (JObj [(''version'', JInt 3), (''interdependencies'', JObj [(''paramspecs'', JArr [])])])
   \<and> upgrade_5_to_6 demo_loads demo_dumps demo_empty_idps demo_conn_v3 =
       (None, \<lparr>n_runs = 1, description = (\<lambda>_. None)
          (1 := Some ''{\"version\": 0, \"interdependencies\": {\"paramspecs\": []}}'')\<rparr>)"
  by (simp add: demo_eval demo_conn_v3_def)


section \<open>Properties of the capacitance module\<close>

lemmas py_parse_eval = py_int_def py_float_def strip_def is_space_def digitpart_def is_digit_def
  digit_val_def to_lower_def float_number_def dchar_def float_exponent_def scale10_def

text \<open>
  The matches of the pattern in three replies. In the first, the example of the spec, each
  value follows four letters: a match cannot start at the first letter, since the value
  would have to start at the fourth, so it starts at the second, and the type read is the
  letter before the sign.
\<close>

lemma finditer_spec_example:
  "finditer pattern ''CAFR+1.234560E-03,YAFR+5.678900E-02'' =
     [[(''value'', ''+1.234560E-03''), (''dtype'', ''R''), (''chnr'', ''F''), (''status'', ''A'')],
      [(''value'', ''+5.678900E-02''), (''dtype'', ''R''), (''chnr'', ''F''), (''status'', ''A'')]]"
  by (simp add: finditer.simps match_at_def pattern_def word_chars_def)

lemma finditer_CY:
  "finditer pattern ''NCC+1.234560E-03,NCY+5.678900E-02'' =
     [[(''value'', ''+1.234560E-03''), (''dtype'', ''C''), (''chnr'', ''C''), (''status'', ''N'')],
      [(''value'', ''+5.678900E-02''), (''dtype'', ''Y''), (''chnr'', ''C''), (''status'', ''N'')]]"
  by (simp add: finditer.simps match_at_def pattern_def word_chars_def)

lemma finditer_YC:
  "finditer pattern ''NCY+5.678900E-02,NCC+1.234560E-03'' =
     [[(''value'', ''+5.678900E-02''), (''dtype'', ''Y''), (''chnr'', ''C''), (''status'', ''N'')],
      [(''value'', ''+1.234560E-03''), (''dtype'', ''C''), (''chnr'', ''C''), (''status'', ''N'')]]"
  by (simp add: finditer.simps match_at_def pattern_def word_chars_def)

lemma py_float_v1: "py_float ''+1.234560E-03'' = Inr (Finite (1.23456 / 10 ^ 3))"
  by (simp add: py_parse_eval)

lemma py_float_v2: "py_float ''+5.678900E-02'' = Inr (Finite (5.6789 / 10 ^ 2))"
  by (simp add: py_parse_eval)

lemma get_capacitance_reply:
  "replies st = r # rs \<Longrightarrow> fst (get_capacitance K st) = get_capacitance_parse r"
  by (simp add: get_capacitance_def set_measurement_mode_def link_write_def link_ask_def)

lemma parse_CY:
  "get_capacitance_parse ''NCC+1.234560E-03,NCY+5.678900E-02'' =
     Inr (Finite (1.23456 / 10 ^ 3), Finite (5.6789 / 10 ^ 2))"
  by (simp add: get_capacitance_parse_def finditer_CY py_float_v1 py_float_v2)

lemma parse_YC:
  "get_capacitance_parse ''NCY+5.678900E-02,NCC+1.234560E-03'' =
     Inl (ValueError ''Result format not supported.'')"
  by (simp add: get_capacitance_parse_def finditer_YC)

lemma parse_spec_example:
  "get_capacitance_parse ''CAFR+1.234560E-03,YAFR+5.678900E-02'' =
     Inl (ValueError ''Result format not supported.'')"
  by (simp add: get_capacitance_parse_def finditer_spec_example)

text \<open>
  Claim C2, amended. When the reply to the spot measurement is
  \<^verbatim>\<open>NCC+1.234560E-03,NCY+5.678900E-02\<close> (each value after a header of three characters:
  status, channel, type), \<open>get_capacitance\<close> returns the pair of 1.23456e-3 and
  5.6789e-2; when the two tokens come in the other order it raises the \<^verbatim>\<open>ValueError\<close>
  "Result format not supported." and returns no value.
\<close>

theorem get_capacitance_tagged_pair:
  "(replies st = ''NCC+1.234560E-03,NCY+5.678900E-02'' # rs \<longrightarrow>
      fst (get_capacitance K st) = Inr (Finite (1.23456 / 10 ^ 3), Finite (5.6789 / 10 ^ 2)))
   \<and> (replies st = ''NCY+5.678900E-02,NCC+1.234560E-03'' # rs \<longrightarrow>
      fst (get_capacitance K st) = Inl (ValueError ''Result format not supported.''))"
  by (simp add: get_capacitance_reply parse_CY parse_YC)

theorem get_capacitance_tagged_pair_witness:
  "fst (get_capacitance demo_constants (demo_module [''NCC+1.234560E-03,NCY+5.678900E-02'']))
     = Inr (Finite (1.23456 / 10 ^ 3), Finite (5.6789 / 10 ^ 2))
   \<and> fst (get_capacitance demo_constants (demo_module [''NCY+5.678900E-02,NCC+1.234560E-03'']))
     = Inl (ValueError ''Result format not supported.'')"
  using get_capacitance_tagged_pair [of "demo_module [''NCC+1.234560E-03,NCY+5.678900E-02'']" "[]" demo_constants]
    get_capacitance_tagged_pair [of "demo_module [''NCY+5.678900E-02,NCC+1.234560E-03'']" "[]" demo_constants]
  by (simp add: demo_module_def)

text \<open>
  Claim C2 as stated fails: on the reply \<^verbatim>\<open>CAFR+1.234560E-03,YAFR+5.678900E-02\<close> the
  operation sends its two messages and raises the \<^verbatim>\<open>ValueError\<close>, since the types read
  are R and R.
\<close>

theorem get_capacitance_spec_example_counterexample:
  "get_capacitance demo_constants (demo_module [''CAFR+1.234560E-03,YAFR+5.678900E-02'']) =
     (Inl (ValueError ''Result format not supported.''),
      (demo_module []) \<lparr>sent := [MB_mm 17 [1], MB_tc 1 0]\<rparr>)"
  by (simp add: get_capacitance_def set_measurement_mode_def link_write_def link_ask_def
      demo_module_def demo_constants_def parse_spec_example)

text \<open>The groups of the sweep pattern in the line of claim C5; the channel keeps its blank.\<close>

lemma search_wdcv:
  "search wdcv ''WDCV 1,1,0.0,1.0,11'' =
     Some [(''sweep_steps'', ''11''), (''sweep_end'', ''1.0''), (''sweep_start'', ''0.0''),
           (''sweep_mode'', ''1''), (''chan'', '' 1'')]"
  by (simp add: match_at_def wdcv_def)

text \<open>
  Claim C5. The parser of the sweep group reads \<^verbatim>\<open>WDCV 1,1,0.0,1.0,11\<close> as the channel
  1, the sweep mode 1 and 11 steps, all three of type \<^verbatim>\<open>int\<close>, and the start 0.0 and the
  end 1.0 of type \<^verbatim>\<open>float\<close>.
\<close>

theorem get_sweep_steps_parser_example:
  "get_sweep_steps_parser ''WDCV 1,1,0.0,1.0,11'' =
     Inr [(''chan'', PInt 1), (''sweep_mode'', PInt 1), (''sweep_start'', PFloat (Finite 0)),
          (''sweep_end'', PFloat (Finite 1)), (''sweep_steps'', PInt 11)]"
  by (simp add: get_sweep_steps_parser_def search_wdcv group_str_def bind_def py_parse_eval
      del: search.simps)

text \<open>
  Claim C4. With the channel 1, the sweep mode 1, the start 0.0, the end 1.0 and 11 steps,
  the command of the sweep group is exactly \<^verbatim>\<open>WDCV 1,1,0.0,1.0,11\<close>, given only that
  Python prints the floats 0.0 and 1.0 as \<^verbatim>\<open>0.0\<close> and \<^verbatim>\<open>1.0\<close>.
\<close>

theorem group_command_wdcv:
  assumes "float_repr (Finite 0) = ''0.0''" and "float_repr (Finite 1) = ''1.0''"
  shows "group_command float_repr set_sweep_steps_set_cmd
           [(''chan'', PInt 1), (''sweep_mode'', PInt 1), (''sweep_start'', PFloat (Finite 0)),
            (''sweep_end'', PFloat (Finite 1)), (''sweep_steps'', PInt 11)]
         = Inr ''WDCV 1,1,0.0,1.0,11''"
  using assms
  by (simp add: group_command_def set_sweep_steps_set_cmd_def py_str_def str_int_def str_nat.simps)

theorem group_command_wdcv_witness:
  "demo_float_repr (Finite 0) = ''0.0'' \<and> demo_float_repr (Finite 1) = ''1.0''
   \<and> group_command demo_float_repr set_sweep_steps_set_cmd
        [(''chan'', PInt 1), (''sweep_mode'', PInt 1), (''sweep_start'', PFloat (Finite 0)),
         (''sweep_end'', PFloat (Finite 1)), (''sweep_steps'', PInt 11)]
      = Inr ''WDCV 1,1,0.0,1.0,11''"
proof -
  have a: "demo_float_repr (Finite 0) = ''0.0''"
    by (simp add: demo_float_repr_def str_int_def str_nat.simps)
  have b: "demo_float_repr (Finite 1) = ''1.0''"
    by (simp add: demo_float_repr_def str_int_def str_nat.simps)
  from group_command_wdcv [OF a b] a b show ?thesis by simp
qed

subsection \<open>Sweep data\<close>










subsection \<open>Sweep execution\<close>

text \<open>
  Claim C7. While \<^verbatim>\<open>setup_fnc_already_run\<close> is false, \<open>get_raw\<close> raises the
  \<^verbatim>\<open>Warning\<close> "Sweep setup has not yet been run successfully" and leaves the module and
  the link as they are: nothing is sent, so no execution command is.
\<close>

theorem get_raw_not_configured:
  assumes "\<not> setup_fnc_already_run st"
  shows "get_raw K st = (Inl (Warning ''Sweep setup has not yet been run successfully''), st)
       \<and> sent (snd (get_raw K st)) = sent st"
  using assms by (simp add: get_raw_def)

theorem get_raw_not_configured_witness:
  "\<not> setup_fnc_already_run (demo_module [''WDCV1,1,0.0,1.0,11''])
   \<and> get_raw demo_constants (demo_module [''WDCV1,1,0.0,1.0,11'']) =
       (Inl (Warning ''Sweep setup has not yet been run successfully''),
        demo_module [''WDCV1,1,0.0,1.0,11''])
   \<and> sent (snd (get_raw demo_constants (demo_module [''WDCV1,1,0.0,1.0,11'']))) = []"
proof -
  have h: "\<not> setup_fnc_already_run (demo_module [''WDCV1,1,0.0,1.0,11''])"
    by (simp add: demo_module_def)
  from get_raw_not_configured [OF h, of demo_constants] h show ?thesis
    by (simp add: demo_module_def)
qed

subsection \<open>Ranging\<close>

text \<open>
  Claim C10, amended. After \<open>set_ranging_mode\<close> the invariant holds: the message sent
  is \<^verbatim>\<open>rc\<close> with the new mode and, when that is automatic, no range, the cached range
  having been reset. \<open>set_measurement_range_for_non_auto\<close> stores the range it is given
  and sends it with the cached mode, whatever that mode is.
\<close>

theorem set_ranging_mode_invariant:
  "range_invariant K (set_ranging_mode K val st)
   \<and> sent (set_ranging_mode K val st) =
       sent st @ [MB_rc (channels st) val
                    (if val = RangingMode_AUTO K then None else measurement_range_for_non_auto st)]
   \<and> (val = RangingMode_AUTO K \<longrightarrow> measurement_range_for_non_auto (set_ranging_mode K val st) = None)
   \<and> set_measurement_range_for_non_auto r st =
       st\<lparr>measurement_range_for_non_auto := r,
          sent := sent st @ [MB_rc (channels st) (ranging_mode st) r]\<rparr>"
  by (simp add: range_invariant_def set_ranging_mode_def set_measurement_range_for_non_auto_def
      link_write_def Let_def)

theorem set_ranging_mode_invariant_witness:
  "set_ranging_mode demo_constants 0
     ((demo_module []) \<lparr>ranging_mode := 2, measurement_range_for_non_auto := Some 50\<rparr>) =
   (demo_module []) \<lparr>sent := [MB_rc 1 0 None]\<rparr>
   \<and> range_invariant demo_constants ((demo_module []) \<lparr>sent := [MB_rc 1 0 None]\<rparr>)"
proof -
  let ?st = "(demo_module []) \<lparr>ranging_mode := 2, measurement_range_for_non_auto := Some 50\<rparr>"
  have e: "set_ranging_mode demo_constants 0 ?st = (demo_module []) \<lparr>sent := [MB_rc 1 0 None]\<rparr>"
    by (simp add: set_ranging_mode_def link_write_def demo_module_def demo_constants_def)
  from set_ranging_mode_invariant [of demo_constants 0 ?st] e show ?thesis by simp
qed

text \<open>
  Claim C10 as stated fails: on a module just initialised, whose mode is automatic,
  setting the range 50 sends \<^verbatim>\<open>rc\<close> with the automatic mode and the range 50, and the
  invariant no longer holds.
\<close>

theorem set_measurement_range_counterexample:
  "initialised demo_constants 1 (demo_module [])
   \<and> set_measurement_range_for_non_auto (Some 50) (demo_module []) =
       (demo_module []) \<lparr>measurement_range_for_non_auto := Some 50, sent := [MB_rc 1 0 (Some 50)]\<rparr>
   \<and> \<not> range_invariant demo_constants (set_measurement_range_for_non_auto (Some 50) (demo_module []))"
  by (simp add: initialised_def range_invariant_def set_measurement_range_for_non_auto_def
      link_write_def demo_module_def demo_constants_def)

subsection \<open>Sweep voltages\<close>













text \<open>
  What the linear sweep of mode 1 has in the middle of an odd number of at least three
  points is the mean of start and end, not the end value.
\<close>

lemma linear_sweep_midpoint:
  assumes "odd n" and "3 \<le> n"
  shows "\<exists>ys. cv_sweep_voltages log10 power10 1 start end n = Inr ys
           \<and> length ys = nat n \<and> ys ! nat (n div 2) = (start + end) / 2"
proof -
  define k where "k = nat (n div 2)"
  from assms have "n mod 2 = 1" by presburger
  with assms(2) have k: "n = 2 * int k + 1"
    unfolding k_def by (simp add: algebra_simps) presburger
  from assms(2) have k1: "1 \<le> k"
    unfolding k_def by simp
  let ?y = "map (\<lambda>i. start + real i * ((end - start) / real_of_int (n - 1))) [0 ..< nat n]"
  have lin: "linspace start end n True = Inr (butlast ?y @ [end])"
    using assms(2) by (simp add: linspace_def Let_def)
  have nk: "nat n = 2 * k + 1" "nat (n div 2) = k" using k by simp_all
  have len: "length (butlast ?y @ [end]) = nat n" using nk by (simp del: upt_Suc)
  have klt: "k < length (butlast ?y)" using nk k1 by (simp del: upt_Suc)
  then have "(butlast ?y @ [end]) ! k = butlast ?y ! k"
    by (simp only: nth_append if_True)
  also from klt have "\<dots> = ?y ! k" by (rule nth_butlast)
  also have "\<dots> = start + real k * ((end - start) / real_of_int (n - 1))"
    using nk by (simp del: upt_Suc)
  also have "\<dots> = (start + end) / 2"
    using k k1 by (simp add: field_simps)
  finally have "(butlast ?y @ [end]) ! nat (n div 2) = (start + end) / 2"
    using nk by simp
  with lin len show ?thesis
    by (simp add: cv_sweep_voltages_def bind_def linear_sweep_def)
qed


end
